theory Spec2Isabelle
  imports Main
begin

section \<open>The language switcher of assets/js/main.js\<close>

text \<open>
  The development embeds \<^verbatim>\<open>initLanguageSwitcher\<close> (main.js, lines 265 to 387): the
  listeners it registers on every \<^verbatim>\<open>.lang-switcher\<close> element and the restore code it
  runs once per element. The page is a record; each listener is a function from pages to
  pages. A listener that a browser call can interrupt returns an \<open>outcome\<close>: the page as
  it stands when the listener ends, and the exception if one was raised.

  What the markup is taken to be:
  \<^item> a \<open>switcher\<close> value stands for an element that passed the guard of line 274 (it has a
    toggle and a menu);
  \<^item> switchers are not nested in one another, the items of a switcher lie in its menu and
    its toggle does not;
  \<^item> every item carries \<^verbatim>\<open>data-lang\<close> and \<^verbatim>\<open>data-label\<close>, and no other element of a
    switcher carries \<^verbatim>\<open>data-lang\<close>;
  \<^item> \<^verbatim>\<open>focus()\<close> on an item or on the toggle moves the focus there;
  \<^item> nothing listens to \<^verbatim>\<open>languageChange\<close> (main.js registers no such listener), so a
    dispatch only adds to the list of notifications sent.
\<close>

subsection \<open>Data\<close>

text \<open>An element with class \<^verbatim>\<open>lang-switcher__item\<close>: its two data attributes and whether
  its class list holds \<^verbatim>\<open>is-active\<close>.\<close>

record item =
  data_lang :: string
  data_label :: string
  is_active :: bool

text \<open>One \<^verbatim>\<open>.lang-switcher\<close>: \<open>currentLabel\<close> is the text of its
  \<^verbatim>\<open>.lang-switcher__current\<close> element, \<open>None\<close> when it has no such element (the code tests
  for it on lines 298 and 371); \<open>is_open\<close> is the class \<^verbatim>\<open>is-open\<close>; \<open>aria_expanded\<close> is the
  attribute of the toggle.\<close>

record switcher =
  items :: "item list"
  currentLabel :: "string option"
  is_open :: bool
  aria_expanded :: "string option"

text \<open>The entry \<^verbatim>\<open>preferredLanguage\<close> of \<^verbatim>\<open>localStorage\<close>, the only key the code uses.
  \<open>Working v\<close>: reads and writes succeed. \<open>Full v\<close>: reads succeed, a write raises
  \<^verbatim>\<open>QuotaExceededError\<close>. \<open>Denied\<close>: the browser refuses access to the storage and every
  use raises \<^verbatim>\<open>SecurityError\<close>.\<close>

datatype storage = Working "string option" | Full "string option" | Denied

datatype error = SecurityError | QuotaExceededError | SyntaxError | TypeError

datatype 'a outcome = Completed 'a | Threw error 'a

text \<open>\<^verbatim>\<open>document.activeElement\<close>, as far as the code can tell it apart: item \<open>i\<close> of
  switcher \<open>k\<close>, another element inside the menu of switcher \<open>k\<close>, the toggle of switcher
  \<open>k\<close>, or something else.\<close>

datatype focus = OnItem nat nat | InMenu nat | OnToggle nat | Elsewhere

text \<open>\<open>dir\<close> is the attribute of the root element; \<open>dispatched\<close> lists the \<^verbatim>\<open>detail\<close> of
  every \<^verbatim>\<open>languageChange\<close> event sent, oldest first, as (lang, label); \<open>uncaught\<close> lists
  the exceptions that left a listener.\<close>

record page =
  switchers :: "switcher list"
  dir :: "string option"
  localStorage :: storage
  dispatched :: "(string \<times> string) list"
  activeElement :: focus
  uncaught :: "error list"

datatype target = Item nat nat | Toggle nat | Inside nat | Outside

datatype key = ArrowDown | ArrowUp | Escape | Tab | OtherKey

datatype event = Click target | Keydown key

subsection \<open>Browser calls\<close>

fun getItem :: "storage \<Rightarrow> error + string option" where
  "getItem (Working v) = Inr v"
| "getItem (Full v) = Inr v"
| "getItem Denied = Inl SecurityError"

fun setItem :: "string \<Rightarrow> storage \<Rightarrow> error + storage" where
  "setItem x (Working v) = Inr (Working (Some x))"
| "setItem x (Full v) = Inl QuotaExceededError"
| "setItem x Denied = Inl SecurityError"

text \<open>The characters that end or escape a double-quoted CSS string: the double quote, the
  backslash, and NUL, line feed, form feed, carriage return.\<close>

definition css_special :: "char list" where
  "css_special = [CHR 0x22, CHR 0x5C, CHR 0x00, CHR 0x0A, CHR 0x0C, CHR 0x0D]"

fun css_plain :: "string \<Rightarrow> bool" where
  "css_plain [] = True"
| "css_plain (c # cs) = (c \<notin> set css_special \<and> css_plain cs)"

fun first_with_lang :: "string \<Rightarrow> item list \<Rightarrow> nat option" where
  "first_with_lang v [] = None"
| "first_with_lang v (x # xs) =
     (if data_lang x = v then Some 0 else map_option Suc (first_with_lang v xs))"

text \<open>What \<^verbatim>\<open>querySelector\<close> makes of a selector text that this development does not
  read itself: for the value spliced in and the items of the switcher, an exception, null,
  or the index of the item found.\<close>

type_synonym selector_engine = "string \<Rightarrow> item list \<Rightarrow> error + nat option"

text \<open>\<^verbatim>\<open>switcher.querySelector(`[data-lang="${savedLang}"]`)\<close> (line 368). The value is
  spliced into the selector text unescaped. For a value of plain characters the selector is
  the attribute test it looks like, and the call returns the first item with that
  \<^verbatim>\<open>data-lang\<close>, or null. A value with one of the special characters makes a different
  selector text: a backslash is read as an escape, a quote ends the string and what follows
  is read as selector syntax, so the call may raise, find nothing, or find an item. The CSS
  grammar is not followed here; the answer for such a value is left to the parameter \<open>qs\<close>,
  and every theorem about restore holds for every \<open>qs\<close>. It is taken that such a selector
  does not find an element that is not an item.\<close>

definition querySelector_data_lang ::
  "selector_engine \<Rightarrow> string \<Rightarrow> item list \<Rightarrow> error + nat option" where
  "querySelector_data_lang qs v its =
     (if css_plain v then Inr (first_with_lang v its) else qs v its)"

text \<open>The remainder operator of JavaScript on integers: the sign follows the dividend;
  \<open>None\<close> is NaN.\<close>

definition js_rem :: "int \<Rightarrow> int \<Rightarrow> int option" where
  "js_rem a b = (if b = 0 then None else Some (sgn a * (\<bar>a\<bar> mod \<bar>b\<bar>)))"

subsection \<open>Updates of one switcher\<close>

definition update_switcher :: "nat \<Rightarrow> (switcher \<Rightarrow> switcher) \<Rightarrow> page \<Rightarrow> page" where
  "update_switcher k f pg = pg\<lparr>switchers := (switchers pg)[k := f (switchers pg ! k)]\<rparr>"

text \<open>\<^verbatim>\<open>if (currentLabel) currentLabel.textContent = label\<close>\<close>

definition set_label :: "string \<Rightarrow> switcher \<Rightarrow> switcher" where
  "set_label l sw =
     (case currentLabel sw of None \<Rightarrow> sw | Some old \<Rightarrow> sw\<lparr>currentLabel := Some l\<rparr>)"

text \<open>\<^verbatim>\<open>items.forEach(i => i.classList.remove('is-active'))\<close>\<close>

definition remove_active :: "item list \<Rightarrow> item list" where
  "remove_active its = map (\<lambda>x. x\<lparr>is_active := False\<rparr>) its"

text \<open>\<^verbatim>\<open>item.classList.add('is-active')\<close>, for the item at index \<open>i\<close>\<close>

definition add_active :: "nat \<Rightarrow> item list \<Rightarrow> item list" where
  "add_active i its = its[i := (its ! i)\<lparr>is_active := True\<rparr>]"

definition set_active :: "nat \<Rightarrow> switcher \<Rightarrow> switcher" where
  "set_active i sw = sw\<lparr>items := add_active i (remove_active (items sw))\<rparr>"

text \<open>\<^verbatim>\<open>switcher.classList.remove('is-open'); toggle.setAttribute('aria-expanded', 'false')\<close>\<close>

definition close_dropdown :: "switcher \<Rightarrow> switcher" where
  "close_dropdown sw = sw\<lparr>is_open := False, aria_expanded := Some ''false''\<rparr>"

subsection \<open>The listeners\<close>

text \<open>Click on the toggle of switcher \<open>k\<close> (lines 277 to 287).\<close>

definition toggle_click :: "nat \<Rightarrow> page \<Rightarrow> page" where
  "toggle_click k pg =
     (let isOpen = \<not> is_open (switchers pg ! k);
          pg1 = update_switcher k
                  (\<lambda>sw. sw\<lparr>is_open := isOpen,
                            aria_expanded := Some (if isOpen then ''true'' else ''false'')\<rparr>) pg
      in if isOpen \<and> items (switchers pg ! k) \<noteq> []
         then pg1\<lparr>activeElement := OnItem k 0\<rparr> else pg1)"

text \<open>Click on item \<open>i\<close> of switcher \<open>k\<close> (lines 291 to 325). \<^verbatim>\<open>setItem\<close> on line 307 is
  called with nothing around it to catch an exception: when it raises, the listener ends
  there, with the label and the active classes already changed.\<close>

definition item_click :: "nat \<Rightarrow> nat \<Rightarrow> page \<Rightarrow> page outcome" where
  "item_click k i pg =
     (let it = items (switchers pg ! k) ! i;
          lang = data_lang it;
          label = data_label it;
          pg1 = update_switcher k (set_label label) pg;
          pg2 = update_switcher k (set_active i) pg1
      in case setItem lang (localStorage pg2) of
           Inl e \<Rightarrow> Threw e pg2
         | Inr st \<Rightarrow>
             Completed ((update_switcher k close_dropdown (pg2\<lparr>localStorage := st\<rparr>))
               \<lparr>dispatched := dispatched pg2 @ [(lang, label)],
                dir := Some (if lang = ''ar-EG'' then ''rtl'' else ''ltr'')\<rparr>))"

text \<open>\<^verbatim>\<open>itemsArray.indexOf(document.activeElement)\<close> (line 332)\<close>

definition currentIndex :: "nat \<Rightarrow> page \<Rightarrow> int" where
  "currentIndex k pg =
     (case activeElement pg of
        OnItem k' i \<Rightarrow>
          if k' = k \<and> i < length (items (switchers pg ! k)) then int i else - 1
      | InMenu k' \<Rightarrow> - 1
      | OnToggle k' \<Rightarrow> - 1
      | Elsewhere \<Rightarrow> - 1)"

text \<open>\<^verbatim>\<open>itemsArray[index].focus()\<close>: an index that is NaN or outside the array reads
  \<^verbatim>\<open>undefined\<close>, and the call on it raises \<^verbatim>\<open>TypeError\<close>.\<close>

definition focus_item :: "nat \<Rightarrow> int option \<Rightarrow> page \<Rightarrow> page outcome" where
  "focus_item k idx pg =
     (case idx of
        None \<Rightarrow> Threw TypeError pg
      | Some j \<Rightarrow>
          if 0 \<le> j \<and> j < int (length (items (switchers pg ! k)))
          then Completed (pg\<lparr>activeElement := OnItem k (nat j)\<rparr>)
          else Threw TypeError pg)"

text \<open>Keydown arriving at the menu of switcher \<open>k\<close> (lines 329 to 355).\<close>

fun menu_keydown :: "nat \<Rightarrow> key \<Rightarrow> page \<Rightarrow> page outcome" where
  "menu_keydown k ArrowDown pg =
     focus_item k (js_rem (currentIndex k pg + 1) (int (length (items (switchers pg ! k))))) pg"
| "menu_keydown k ArrowUp pg =
     focus_item k (js_rem (currentIndex k pg - 1 + int (length (items (switchers pg ! k))))
                          (int (length (items (switchers pg ! k))))) pg"
| "menu_keydown k Escape pg =
     Completed ((update_switcher k close_dropdown pg)\<lparr>activeElement := OnToggle k\<rparr>)"
| "menu_keydown k Tab pg = Completed (update_switcher k close_dropdown pg)"
| "menu_keydown k OtherKey pg = Completed pg"

text \<open>\<^verbatim>\<open>switcher.contains(e.target)\<close> for switcher \<open>j\<close>.\<close>

fun switcher_contains :: "nat \<Rightarrow> target \<Rightarrow> bool" where
  "switcher_contains j (Item k i) = (j = k)"
| "switcher_contains j (Toggle k) = (j = k)"
| "switcher_contains j (Inside k) = (j = k)"
| "switcher_contains j Outside = False"

text \<open>The click listener that switcher \<open>j\<close> registers on the document (lines 358 to 363).\<close>

definition document_click :: "target \<Rightarrow> nat \<Rightarrow> page \<Rightarrow> page" where
  "document_click t j pg =
     (if \<not> switcher_contains j t then update_switcher j close_dropdown pg else pg)"

subsection \<open>Restoring the saved preference\<close>

text \<open>The else branch of line 380: \<^verbatim>\<open>if (items.length > 0) items[0].classList.add('is-active')\<close>\<close>

definition activate_first :: "nat \<Rightarrow> page \<Rightarrow> page" where
  "activate_first k pg =
     (if items (switchers pg ! k) \<noteq> []
      then update_switcher k (\<lambda>sw. sw\<lparr>items := add_active 0 (items sw)\<rparr>) pg else pg)"

text \<open>Lines 365 to 385, for switcher \<open>k\<close>. \<^verbatim>\<open>if (savedLang)\<close> takes null and the empty
  string to the else branch.\<close>

definition restore :: "selector_engine \<Rightarrow> nat \<Rightarrow> page \<Rightarrow> page outcome" where
  "restore qs k pg =
     (case getItem (localStorage pg) of
        Inl e \<Rightarrow> Threw e pg
      | Inr None \<Rightarrow> Completed (activate_first k pg)
      | Inr (Some savedLang) \<Rightarrow>
          if savedLang = [] then Completed (activate_first k pg)
          else
            (case querySelector_data_lang qs savedLang (items (switchers pg ! k)) of
               Inl e \<Rightarrow> Threw e pg
             | Inr None \<Rightarrow> Completed pg
             | Inr (Some s) \<Rightarrow>
                 (let label = data_label (items (switchers pg ! k) ! s);
                      pg1 = update_switcher k (set_label label) pg;
                      pg2 = update_switcher k (set_active s) pg1
                  in Completed (if savedLang = ''ar-EG'' then pg2\<lparr>dir := Some ''rtl''\<rparr>
                                else pg2))))"

subsection \<open>Events\<close>

text \<open>An exception that leaves a listener is reported and the page stays as the listener
  left it; the event goes on to the listeners that follow.\<close>

fun page_of :: "page outcome \<Rightarrow> page" where
  "page_of (Completed pg) = pg"
| "page_of (Threw e pg) = pg"

fun settle :: "page outcome \<Rightarrow> page" where
  "settle (Completed pg) = pg"
| "settle (Threw e pg) = pg\<lparr>uncaught := uncaught pg @ [e]\<rparr>"

text \<open>Every switcher has registered its listener on the document; a click that bubbles up
  to the document runs them all.\<close>

definition document_listeners :: "target \<Rightarrow> page \<Rightarrow> page" where
  "document_listeners t pg = fold (document_click t) [0..<length (switchers pg)] pg"

text \<open>Whether the element clicked on is on the page.\<close>

fun on_page :: "target \<Rightarrow> page \<Rightarrow> bool" where
  "on_page (Item k i) pg =
     (k < length (switchers pg) \<and> i < length (items (switchers pg ! k)))"
| "on_page (Toggle k) pg = (k < length (switchers pg))"
| "on_page (Inside k) pg = (k < length (switchers pg))"
| "on_page Outside pg = True"

text \<open>A click on an item runs the listener of the item and bubbles to the document. A
  click on a toggle runs the listener of the toggle, which calls \<^verbatim>\<open>stopPropagation\<close>
  (line 278): the document is not reached. Any other click only reaches the document.\<close>

fun click :: "target \<Rightarrow> page \<Rightarrow> page" where
  "click (Item k i) pg = document_listeners (Item k i) (settle (item_click k i pg))"
| "click (Toggle k) pg = toggle_click k pg"
| "click (Inside k) pg = document_listeners (Inside k) pg"
| "click Outside pg = document_listeners Outside pg"

text \<open>A keydown goes to the menu that holds the focus, if any.\<close>

definition keydown :: "key \<Rightarrow> page \<Rightarrow> page" where
  "keydown ky pg =
     (case activeElement pg of
        OnItem k i \<Rightarrow>
          if k < length (switchers pg) then settle (menu_keydown k ky pg) else pg
      | InMenu k \<Rightarrow>
          if k < length (switchers pg) then settle (menu_keydown k ky pg) else pg
      | OnToggle k \<Rightarrow> pg
      | Elsewhere \<Rightarrow> pg)"

text \<open>One event. A click on something that is not on the page is no event. The browser's
  own reaction to a click or to Tab (moving the focus) is not part of the model.\<close>

fun step :: "event \<Rightarrow> page \<Rightarrow> page" where
  "step (Click t) pg = (if on_page t pg then click t pg else pg)"
| "step (Keydown ky) pg = keydown ky pg"

text \<open>The selected code of a switcher: the code of its first active item.\<close>

definition selectedCode :: "switcher \<Rightarrow> string option" where
  "selectedCode sw = map_option data_lang (List.find is_active (items sw))"



subsection \<open>An example engine\<close>

text \<open>One possible engine: it rejects every selector text outside the plain fragment.
  Browsers reject some of these texts (one with an unbalanced quote, such as
  \<^verbatim>\<open>[data-lang="""]\<close>) and accept others. It serves to run restore on the example pages;
  no theorem depends on the choice.\<close>

definition strict_engine :: selector_engine where
  "strict_engine v its = Inl SyntaxError"

subsection \<open>Example pages\<close>

text \<open>One open switcher with two options, over a storage in the given state.\<close>

definition demo :: "storage \<Rightarrow> page" where
  "demo st =
     \<lparr>switchers =
        [\<lparr>items = [\<lparr>data_lang = ''en-US'', data_label = ''English'', is_active = True\<rparr>,
                   \<lparr>data_lang = ''ar-EG'', data_label = ''Arabic'', is_active = False\<rparr>],
          currentLabel = Some ''English'', is_open = True, aria_expanded = Some ''true''\<rparr>],
      dir = None, localStorage = st, dispatched = [],
      activeElement = OnItem 0 0, uncaught = []\<rparr>"


text \<open>One switcher with three options, none active yet, nothing stored.\<close>

definition three_items :: page where
  "three_items =
     \<lparr>switchers =
        [\<lparr>items = [\<lparr>data_lang = ''en-US'', data_label = ''English'', is_active = False\<rparr>,
                   \<lparr>data_lang = ''fr-FR'', data_label = ''Francais'', is_active = False\<rparr>,
                   \<lparr>data_lang = ''ar-EG'', data_label = ''Arabic'', is_active = False\<rparr>],
          currentLabel = Some ''Language'', is_open = True, aria_expanded = Some ''true''\<rparr>],
      dir = Some ''ltr'', localStorage = Working None, dispatched = [],
      activeElement = OnItem 0 0, uncaught = []\<rparr>"

text \<open>A switcher whose second option has the empty string as its code, with that code
  stored.\<close>

definition empty_code :: page where
  "empty_code =
     \<lparr>switchers =
        [\<lparr>items = [\<lparr>data_lang = ''en-US'', data_label = ''English'', is_active = False\<rparr>,
                   \<lparr>data_lang = [], data_label = ''Default'', is_active = False\<rparr>],
          currentLabel = Some ''Language'', is_open = False, aria_expanded = Some ''false''\<rparr>],
      dir = None, localStorage = Working (Some []), dispatched = [],
      activeElement = Elsewhere, uncaught = []\<rparr>"

text \<open>A switcher whose only option has a double quote as its code, with that code stored.\<close>

definition quote_code :: page where
  "quote_code =
     \<lparr>switchers =
        [\<lparr>items = [\<lparr>data_lang = [CHR 0x22], data_label = ''Quote'', is_active = False\<rparr>],
          currentLabel = Some ''Language'', is_open = False, aria_expanded = Some ''false''\<rparr>],
      dir = None, localStorage = Working (Some [CHR 0x22]), dispatched = [],
      activeElement = Elsewhere, uncaught = []\<rparr>"

section \<open>Basic facts\<close>

subsection \<open>The updates of one switcher\<close>

lemma update_switcher_simps [simp]:
  "switchers (update_switcher k f pg) = (switchers pg)[k := f (switchers pg ! k)]"
  "dir (update_switcher k f pg) = dir pg"
  "localStorage (update_switcher k f pg) = localStorage pg"
  "dispatched (update_switcher k f pg) = dispatched pg"
  "activeElement (update_switcher k f pg) = activeElement pg"
  "uncaught (update_switcher k f pg) = uncaught pg"
  by (simp_all add: update_switcher_def)

lemma close_dropdown_simps [simp]:
  "items (close_dropdown sw) = items sw"
  "currentLabel (close_dropdown sw) = currentLabel sw"
  "is_open (close_dropdown sw) = False"
  "aria_expanded (close_dropdown sw) = Some ''false''"
  "close_dropdown (close_dropdown sw) = close_dropdown sw"
  by (simp_all add: close_dropdown_def)

lemma set_label_simps [simp]:
  "items (set_label l sw) = items sw"
  "currentLabel (set_label l sw) = map_option (\<lambda>old. l) (currentLabel sw)"
  "is_open (set_label l sw) = is_open sw"
  "aria_expanded (set_label l sw) = aria_expanded sw"
  by (simp_all add: set_label_def split: option.splits)

lemma set_active_simps [simp]:
  "items (set_active i sw) = add_active i (remove_active (items sw))"
  "currentLabel (set_active i sw) = currentLabel sw"
  "is_open (set_active i sw) = is_open sw"
  "aria_expanded (set_active i sw) = aria_expanded sw"
  by (simp_all add: set_active_def)

lemma length_add_remove [simp]:
  "length (add_active i its) = length its"
  "length (remove_active its) = length its"
  by (simp_all add: add_active_def remove_active_def)

text \<open>After the two class updates exactly the chosen item is active.\<close>

lemma nth_add_remove:
  "i < length its \<Longrightarrow> j < length its \<Longrightarrow>
   add_active i (remove_active its) ! j = (its ! j)\<lparr>is_active := (j = i)\<rparr>"
  by (simp add: add_active_def remove_active_def nth_list_update)

lemma find_single_active:
  assumes "s < length its"
  shows "List.find is_active (add_active s (remove_active its)) =
           Some ((its ! s)\<lparr>is_active := True\<rparr>)"
proof -
  let ?xs = "add_active s (remove_active its)"
  have "s < length ?xs" using assms by simp
  moreover have "is_active (?xs ! s)" using assms by (simp add: nth_add_remove)
  moreover have "?xs ! s = (its ! s)\<lparr>is_active := True\<rparr>"
    using assms by (simp add: nth_add_remove)
  moreover have "\<forall>j<s. \<not> is_active (?xs ! j)" using assms by (simp add: nth_add_remove)
  ultimately show ?thesis
    unfolding find_Some_iff by metis
qed

subsection \<open>Looking an option up by its code\<close>

lemma first_with_lang_None:
  "first_with_lang c its = None \<longleftrightarrow> c \<notin> data_lang ` set its"
  by (induction its) auto

lemma first_with_lang_Some:
  "first_with_lang c its = Some s \<Longrightarrow> s < length its \<and> data_lang (its ! s) = c"
proof (induction its arbitrary: s)
  case Nil
  then show ?case by simp
next
  case (Cons x xs)
  then show ?case by (auto split: if_splits)
qed

lemma first_with_lang_declared:
  "c \<in> data_lang ` set its \<Longrightarrow> \<exists>s. first_with_lang c its = Some s"
  using first_with_lang_None [of c its] by (cases "first_with_lang c its") auto

subsection \<open>The listeners on the document\<close>

lemma document_click_frame [simp]:
  "dir (document_click t j pg) = dir pg"
  "localStorage (document_click t j pg) = localStorage pg"
  "dispatched (document_click t j pg) = dispatched pg"
  "activeElement (document_click t j pg) = activeElement pg"
  "uncaught (document_click t j pg) = uncaught pg"
  "length (switchers (document_click t j pg)) = length (switchers pg)"
  by (simp_all add: document_click_def)

lemma document_click_nth:
  "k < length (switchers pg) \<Longrightarrow>
   switchers (document_click t j pg) ! k =
     (if j = k \<and> \<not> switcher_contains k t then close_dropdown (switchers pg ! k)
      else switchers pg ! k)"
  by (cases "j = k") (simp_all add: document_click_def)

lemma fold_document_click_frame:
  "dir (fold (document_click t) js pg) = dir pg \<and>
   localStorage (fold (document_click t) js pg) = localStorage pg \<and>
   dispatched (fold (document_click t) js pg) = dispatched pg \<and>
   activeElement (fold (document_click t) js pg) = activeElement pg \<and>
   uncaught (fold (document_click t) js pg) = uncaught pg \<and>
   length (switchers (fold (document_click t) js pg)) = length (switchers pg)"
  by (induction js arbitrary: pg) simp_all

lemma fold_document_click_nth:
  "k < length (switchers pg) \<Longrightarrow>
   switchers (fold (document_click t) js pg) ! k =
     (if k \<in> set js \<and> \<not> switcher_contains k t then close_dropdown (switchers pg ! k)
      else switchers pg ! k)"
proof (induction js arbitrary: pg)
  case Nil
  then show ?case by simp
next
  case (Cons j js)
  have len: "k < length (switchers (document_click t j pg))"
    using Cons.prems by simp
  show ?case
    using Cons.IH [OF len] Cons.prems by (auto simp: document_click_nth)
qed

lemma document_listeners_frame [simp]:
  "dir (document_listeners t pg) = dir pg"
  "localStorage (document_listeners t pg) = localStorage pg"
  "dispatched (document_listeners t pg) = dispatched pg"
  "activeElement (document_listeners t pg) = activeElement pg"
  "uncaught (document_listeners t pg) = uncaught pg"
  "length (switchers (document_listeners t pg)) = length (switchers pg)"
  using fold_document_click_frame [of t "[0..<length (switchers pg)]" pg]
  by (simp_all add: document_listeners_def)

text \<open>A click that reaches the document closes every switcher that does not contain the
  target and leaves the one that does as it is.\<close>

lemma document_listeners_nth:
  "k < length (switchers pg) \<Longrightarrow>
   switchers (document_listeners t pg) ! k =
     (if switcher_contains k t then switchers pg ! k else close_dropdown (switchers pg ! k))"
  by (simp add: document_listeners_def fold_document_click_nth)

subsection \<open>A click on an item\<close>

lemma item_click_length [simp]:
  "length (switchers (page_of (item_click k i pg))) = length (switchers pg)"
  by (simp add: item_click_def Let_def split: sum.splits)

lemma settle_switchers [simp]: "switchers (settle r) = switchers (page_of r)"
  by (cases r) simp_all

lemma item_click_working:
  assumes "k < length (switchers pg)" and "localStorage pg = Working v"
  shows "item_click k i pg =
     Completed (pg\<lparr>switchers := (switchers pg)[k :=
                    close_dropdown (set_active i
                      (set_label (data_label (items (switchers pg ! k) ! i)) (switchers pg ! k)))],
                  localStorage := Working (Some (data_lang (items (switchers pg ! k) ! i))),
                  dispatched := dispatched pg @
                    [(data_lang (items (switchers pg ! k) ! i),
                      data_label (items (switchers pg ! k) ! i))],
                  dir := Some (if data_lang (items (switchers pg ! k) ! i) = ''ar-EG''
                               then ''rtl'' else ''ltr'')\<rparr>)"
  using assms by (simp add: item_click_def Let_def update_switcher_def)

lemma step_item_working:
  assumes "k < length (switchers pg)" and "i < length (items (switchers pg ! k))"
    and "localStorage pg = Working v"
  shows "switchers (step (Click (Item k i)) pg) ! k =
           close_dropdown (set_active i
             (set_label (data_label (items (switchers pg ! k) ! i)) (switchers pg ! k)))"
    and "localStorage (step (Click (Item k i)) pg) =
           Working (Some (data_lang (items (switchers pg ! k) ! i)))"
    and "dispatched (step (Click (Item k i)) pg) =
           dispatched pg @ [(data_lang (items (switchers pg ! k) ! i),
                             data_label (items (switchers pg ! k) ! i))]"
    and "dir (step (Click (Item k i)) pg) =
           Some (if data_lang (items (switchers pg ! k) ! i) = ''ar-EG''
                 then ''rtl'' else ''ltr'')"
  using assms by (simp_all add: item_click_working document_listeners_nth)

subsection \<open>The arrow keys\<close>

lemma js_rem_next:
  "0 < n \<Longrightarrow> js_rem (int i + 1) (int n) = Some (int (Suc i mod n))"
  by (simp add: js_rem_def zmod_int add.commute)

lemma arrow_down_step:
  assumes "k < length (switchers pg)" and "i < length (items (switchers pg ! k))"
    and "activeElement pg = OnItem k i"
  shows "step (Keydown ArrowDown) pg =
           pg\<lparr>activeElement := OnItem k (Suc i mod length (items (switchers pg ! k)))\<rparr>"
proof -
  have pos: "0 < length (items (switchers pg ! k))" using assms(2) by auto
  then have "js_rem (currentIndex k pg + 1) (int (length (items (switchers pg ! k)))) =
               Some (int (Suc i mod length (items (switchers pg ! k))))"
    using assms js_rem_next [of "length (items (switchers pg ! k))" i]
    by (simp add: currentIndex_def)
  moreover have "Suc i mod length (items (switchers pg ! k)) < length (items (switchers pg ! k))"
    using pos by (rule mod_less_divisor)
  ultimately show ?thesis
    using assms by (simp add: keydown_def focus_item_def)
qed

lemma arrow_down_funpow:
  assumes "k < length (switchers pg)" and "i < length (items (switchers pg ! k))"
    and "activeElement pg = OnItem k i"
  shows "(step (Keydown ArrowDown) ^^ m) pg =
           pg\<lparr>activeElement := OnItem k ((i + m) mod length (items (switchers pg ! k)))\<rparr>"
proof (induction m)
  case 0
  then show ?case using assms by simp
next
  case (Suc m)
  let ?n = "length (items (switchers pg ! k))"
  let ?pg = "pg\<lparr>activeElement := OnItem k ((i + m) mod ?n)\<rparr>"
  have n: "0 < ?n" using assms(2) by auto
  have "step (Keydown ArrowDown) ?pg =
          ?pg\<lparr>activeElement :=
                 OnItem k (Suc ((i + m) mod ?n) mod length (items (switchers ?pg ! k)))\<rparr>"
    using assms(1) n by (intro arrow_down_step) simp_all
  then show ?case
    using Suc by (simp add: mod_Suc_eq)
qed

subsection \<open>Restoring a stored code that an item carries\<close>

lemma restore_found:
  assumes "getItem (localStorage pg) = Inr (Some c)" and "c \<noteq> []" and "css_plain c"
    and "first_with_lang c (items (switchers pg ! k)) = Some s"
    and "k < length (switchers pg)"
  shows "restore qs k pg =
           Completed ((pg\<lparr>switchers := (switchers pg)[k :=
                         set_active s (set_label (data_label (items (switchers pg ! k) ! s))
                                         (switchers pg ! k))]\<rparr>)
                      \<lparr>dir := (if c = ''ar-EG'' then Some ''rtl'' else dir pg)\<rparr>)"
  using assms
  by (simp add: restore_def querySelector_data_lang_def Let_def update_switcher_def)

text \<open>For a stored value outside the plain fragment restore does what the engine
  answers: it ends with the exception, or changes nothing, or marks the item found.\<close>

lemma restore_special:
  assumes "getItem (localStorage pg) = Inr (Some c)" and "\<not> css_plain c"
  shows "restore qs k pg =
           (case qs c (items (switchers pg ! k)) of
              Inl e \<Rightarrow> Threw e pg
            | Inr None \<Rightarrow> Completed pg
            | Inr (Some s) \<Rightarrow>
                Completed (update_switcher k (set_active s)
                  (update_switcher k
                     (set_label (data_label (items (switchers pg ! k) ! s))) pg)))"
proof -
  have "c \<noteq> []" using assms(2) by auto
  moreover have "c \<noteq> ''ar-EG''" using assms(2) by (auto simp: css_special_def)
  ultimately show ?thesis
    using assms
    by (simp add: restore_def querySelector_data_lang_def Let_def
          split: sum.splits option.splits)
qed

text \<open>A stored code with a double quote in it: the selector text of line 368 is then
  \<^verbatim>\<open>[data-lang="""]\<close>, which is no selector. With an engine that rejects it, restore ends
  with the exception and the stored code is not restored.\<close>

lemma restore_quote_code_raises:
  "[CHR 0x22] \<in> data_lang ` set (items (switchers quote_code ! 0))
   \<and> restore strict_engine 0 quote_code = Threw SyntaxError quote_code"
  by (simp add: quote_code_def restore_def querySelector_data_lang_def css_special_def
        strict_engine_def)

section \<open>The claims\<close>

subsection \<open>Selection\<close>

text \<open>
  Claim C1, as amended. Take any switcher \<open>k\<close> on the page and any of its options \<open>i\<close>,
  with code \<open>c\<close> and label \<open>l\<close>, and let the storage accept the write. After the click on
  that option, option \<open>i\<close> is the only active option of the switcher, the current-label
  element (where the switcher has one) shows \<open>l\<close>, the storage holds \<open>c\<close>, the dropdown is
  closed, and exactly one notification was added, carrying \<open>c\<close> and \<open>l\<close>.
\<close>

theorem select_effects:
  assumes "k < length (switchers pg)"
    and "i < length (items (switchers pg ! k))"
    and "data_lang (items (switchers pg ! k) ! i) = c"
    and "data_label (items (switchers pg ! k) ! i) = l"
    and "localStorage pg = Working v"
  shows "(\<forall>j < length (items (switchers pg ! k)).
            is_active (items (switchers (step (Click (Item k i)) pg) ! k) ! j) = (j = i))
       \<and> length (items (switchers (step (Click (Item k i)) pg) ! k)) =
           length (items (switchers pg ! k))
       \<and> currentLabel (switchers (step (Click (Item k i)) pg) ! k) =
           map_option (\<lambda>old. l) (currentLabel (switchers pg ! k))
       \<and> localStorage (step (Click (Item k i)) pg) = Working (Some c)
       \<and> \<not> is_open (switchers (step (Click (Item k i)) pg) ! k)
       \<and> dispatched (step (Click (Item k i)) pg) = dispatched pg @ [(c, l)]"
  using assms step_item_working [OF assms(1,2,5)] by (simp add: nth_add_remove)

theorem select_effects_witness:
  "is_active (items (switchers (step (Click (Item 0 1)) (demo (Working None))) ! 0) ! 1)
   \<and> \<not> is_active (items (switchers (step (Click (Item 0 1)) (demo (Working None))) ! 0) ! 0)
   \<and> currentLabel (switchers (step (Click (Item 0 1)) (demo (Working None))) ! 0)
       = Some ''Arabic''
   \<and> localStorage (step (Click (Item 0 1)) (demo (Working None))) = Working (Some ''ar-EG'')
   \<and> \<not> is_open (switchers (step (Click (Item 0 1)) (demo (Working None))) ! 0)
   \<and> dispatched (step (Click (Item 0 1)) (demo (Working None))) = [(''ar-EG'', ''Arabic'')]"
  using select_effects [of 0 "demo (Working None)" 1 "''ar-EG''" "''Arabic''" None]
  by (simp add: demo_def)

text \<open>The claim as written fails where the browser refuses access to the storage: the
  click on the second option of the open switcher leaves it open, sends no notification
  and stores nothing; the exception is reported.\<close>

theorem select_storage_denied_counterexample:
  "is_open (switchers (step (Click (Item 0 1)) (demo Denied)) ! 0)
   \<and> dispatched (step (Click (Item 0 1)) (demo Denied)) = []
   \<and> localStorage (step (Click (Item 0 1)) (demo Denied)) = Denied
   \<and> getItem (localStorage (step (Click (Item 0 1)) (demo Denied))) \<noteq> Inr (Some ''ar-EG'')
   \<and> uncaught (step (Click (Item 0 1)) (demo Denied)) = [SecurityError]"
  by (simp add: demo_def item_click_def Let_def update_switcher_def set_label_def
        set_active_def add_active_def remove_active_def document_listeners_def
        document_click_def)

text \<open>
  Claim C3, as amended. For every option of every switcher, with code \<open>c\<close>: after a click on
  it whose write to the storage succeeds, the direction attribute of the root element is
  \<^verbatim>\<open>rtl\<close> if \<open>c\<close> is \<^verbatim>\<open>ar-EG\<close> and \<^verbatim>\<open>ltr\<close> otherwise.
\<close>

theorem select_direction:
  assumes "k < length (switchers pg)"
    and "i < length (items (switchers pg ! k))"
    and "data_lang (items (switchers pg ! k) ! i) = c"
    and "localStorage pg = Working v"
  shows "dir (step (Click (Item k i)) pg) = Some (if c = ''ar-EG'' then ''rtl'' else ''ltr'')"
  using assms step_item_working(4) [OF assms(1,2,4)] by simp

theorem select_direction_witness:
  "dir (step (Click (Item 0 1)) (demo (Working None))) = Some ''rtl''
   \<and> dir (step (Click (Item 0 0)) (demo (Working (Some ''ar-EG'')))) = Some ''ltr''"
  using select_direction [of 0 "demo (Working None)" 1 "''ar-EG''" None]
    select_direction [of 0 "demo (Working (Some ''ar-EG''))" 0 "''en-US''" "Some ''ar-EG''"]
  by (simp add: demo_def)

text \<open>With a storage that is full the write on line 307 raises, the listener ends there,
  and the direction attribute is not set: after the click on \<^verbatim>\<open>ar-EG\<close> it is still
  absent.\<close>

theorem select_direction_counterexample:
  "data_lang (items (switchers (demo (Full None)) ! 0) ! 1) = ''ar-EG''
   \<and> dir (step (Click (Item 0 1)) (demo (Full None))) = None"
  by (simp add: demo_def item_click_def Let_def)

subsection \<open>The preference store\<close>




subsection \<open>Closing the dropdown\<close>




subsection \<open>Keyboard navigation\<close>

text \<open>
  Claim C7. In a switcher with \<open>N \<ge> 1\<close> options, with the focus on option 0, pressing the
  Down arrow \<open>N\<close> times brings the focus back to option 0; each single press moves the
  focus from option \<open>i\<close> to option \<open>i + 1\<close>, and from the last option to the first.
\<close>

theorem arrow_down_cycles:
  assumes "k < length (switchers pg)"
    and "length (items (switchers pg ! k)) = N"
    and "1 \<le> N"
  shows "(activeElement pg = OnItem k 0 \<longrightarrow>
            activeElement ((step (Keydown ArrowDown) ^^ N) pg) = OnItem k 0)
       \<and> (\<forall>i < N. activeElement pg = OnItem k i \<longrightarrow>
            activeElement (step (Keydown ArrowDown) pg) =
              OnItem k (if i + 1 = N then 0 else i + 1))"
proof (intro conjI impI allI)
  assume "activeElement pg = OnItem k 0"
  then show "activeElement ((step (Keydown ArrowDown) ^^ N) pg) = OnItem k 0"
    using assms arrow_down_funpow [of k pg 0 N] by simp
next
  fix i assume "i < N" and "activeElement pg = OnItem k i"
  then show "activeElement (step (Keydown ArrowDown) pg) =
               OnItem k (if i + 1 = N then 0 else i + 1)"
    using assms arrow_down_step [of k pg i] by (auto simp: mod_Suc)
qed

theorem arrow_down_cycles_witness:
  "activeElement ((step (Keydown ArrowDown) ^^ 3) three_items) = OnItem 0 0
   \<and> activeElement (step (Keydown ArrowDown) three_items) = OnItem 0 1
   \<and> activeElement (step (Keydown ArrowDown) (three_items\<lparr>activeElement := OnItem 0 2\<rparr>))
       = OnItem 0 0"
  using arrow_down_cycles [of 0 three_items 3]
    arrow_down_cycles [of 0 "three_items\<lparr>activeElement := OnItem 0 2\<rparr>" 3]
  by (simp add: three_items_def)

subsection \<open>Restore\<close>

text \<open>
  Claim C4, as amended. Let \<open>c\<close> be a code that an option of switcher \<open>k\<close> carries, not
  empty and free of the characters that are special in a quoted CSS string, and let \<open>c\<close>
  be stored under the preference key. Then restore, from any state of the switcher, runs
  to its end; afterwards the selected code is \<open>c\<close>, the first option with code \<open>c\<close> is the
  only active one, and the current-label element (where there is one) shows its label.
\<close>

theorem stored_code_restored:
  assumes "getItem (localStorage pg) = Inr (Some c)"
    and "k < length (switchers pg)"
    and "c \<in> data_lang ` set (items (switchers pg ! k))"
    and "c \<noteq> []"
    and "css_plain c"
  shows "\<exists>pg' s. restore qs k pg = Completed pg'
           \<and> first_with_lang c (items (switchers pg ! k)) = Some s
           \<and> data_lang (items (switchers pg ! k) ! s) = c
           \<and> selectedCode (switchers pg' ! k) = Some c
           \<and> (\<forall>j < length (items (switchers pg ! k)).
                 is_active (items (switchers pg' ! k) ! j) = (j = s))
           \<and> currentLabel (switchers pg' ! k) =
               map_option (\<lambda>old. data_label (items (switchers pg ! k) ! s))
                 (currentLabel (switchers pg ! k))"
proof -
  obtain s where s: "first_with_lang c (items (switchers pg ! k)) = Some s"
    using first_with_lang_declared [OF assms(3)] by blast
  have bound: "s < length (items (switchers pg ! k))"
    and code: "data_lang (items (switchers pg ! k) ! s) = c"
    using first_with_lang_Some [OF s] by simp_all
  let ?pg' = "(pg\<lparr>switchers := (switchers pg)[k :=
                 set_active s (set_label (data_label (items (switchers pg ! k) ! s))
                                 (switchers pg ! k))]\<rparr>)
              \<lparr>dir := (if c = ''ar-EG'' then Some ''rtl'' else dir pg)\<rparr>"
  have r: "restore qs k pg = Completed ?pg'"
    using restore_found [OF assms(1,4,5) s assms(2)] .
  have sel: "selectedCode (switchers ?pg' ! k) = Some c"
    using assms(2) bound code by (simp add: selectedCode_def find_single_active)
  have act: "\<forall>j < length (items (switchers pg ! k)).
               is_active (items (switchers ?pg' ! k) ! j) = (j = s)"
    using assms(2) bound by (simp add: nth_add_remove)
  have lab: "currentLabel (switchers ?pg' ! k) =
               map_option (\<lambda>old. data_label (items (switchers pg ! k) ! s))
                 (currentLabel (switchers pg ! k))"
    using assms(2) by simp
  from r s code sel act lab show ?thesis by blast
qed

theorem stored_code_restored_witness:
  "restore strict_engine 0 (three_items\<lparr>localStorage := Working (Some ''fr-FR'')\<rparr>) =
     Completed (page_of (restore strict_engine 0 (three_items\<lparr>localStorage := Working (Some ''fr-FR'')\<rparr>)))
   \<and> selectedCode (switchers (page_of (restore strict_engine 0
         (three_items\<lparr>localStorage := Working (Some ''fr-FR'')\<rparr>))) ! 0) = Some ''fr-FR''
   \<and> currentLabel (switchers (page_of (restore strict_engine 0
         (three_items\<lparr>localStorage := Working (Some ''fr-FR'')\<rparr>))) ! 0) = Some ''Francais''"
  using stored_code_restored
          [where pg = "three_items\<lparr>localStorage := Working (Some ''fr-FR'')\<rparr>"
             and c = "''fr-FR''" and k = 0 and qs = strict_engine]
  by (auto simp: three_items_def css_special_def)

text \<open>An option whose code is the empty string: the stored empty string is falsy on line
  367, restore takes the else branch and marks the first option. The selected code is then
  that of the first option and the label is not changed.\<close>

theorem stored_empty_code_counterexample:
  "setItem [] (Working None) = Inr (localStorage empty_code)
   \<and> [] \<in> data_lang ` set (items (switchers empty_code ! 0))
   \<and> selectedCode (switchers (page_of (restore strict_engine 0 empty_code)) ! 0) = Some ''en-US''
   \<and> currentLabel (switchers (page_of (restore strict_engine 0 empty_code)) ! 0) = Some ''Language''"
  by (simp add: empty_code_def restore_def activate_first_def update_switcher_def
        add_active_def selectedCode_def)

text \<open>
  Claim C8. When nothing is stored and switcher \<open>k\<close> has at least one option, restore runs
  to its end and the page afterwards is the page before with the first option of switcher
  \<open>k\<close> marked active: the other options, the label, the storage, the direction, the open
  state and the notifications sent are as they were.
\<close>

theorem restore_without_preference:
  assumes "getItem (localStorage pg) = Inr None"
    and "k < length (switchers pg)"
    and "items (switchers pg ! k) \<noteq> []"
  shows "restore qs k pg =
           Completed (pg\<lparr>switchers := (switchers pg)[k := (switchers pg ! k)
             \<lparr>items := (items (switchers pg ! k))
                         [0 := (items (switchers pg ! k) ! 0)\<lparr>is_active := True\<rparr>]\<rparr>]\<rparr>)
       \<and> is_active (items (switchers (page_of (restore qs k pg)) ! k) ! 0)"
  using assms by (simp add: restore_def activate_first_def update_switcher_def add_active_def)

theorem restore_without_preference_witness:
  "restore strict_engine 0 three_items =
     Completed (three_items\<lparr>switchers := (switchers three_items)[0 := (switchers three_items ! 0)
       \<lparr>items := (items (switchers three_items ! 0))
                   [0 := (items (switchers three_items ! 0) ! 0)\<lparr>is_active := True\<rparr>]\<rparr>]\<rparr>)
   \<and> is_active (items (switchers (page_of (restore strict_engine 0 three_items)) ! 0) ! 0)
   \<and> dir (page_of (restore strict_engine 0 three_items)) = Some ''ltr''
   \<and> currentLabel (switchers (page_of (restore strict_engine 0 three_items)) ! 0) = Some ''Language''"
  using restore_without_preference [where pg = three_items and k = 0 and qs = strict_engine]
  by (simp add: three_items_def)

text \<open>
  Claim C9, as amended. When the stored value is not empty, is free of the characters that
  are special in a quoted CSS string, and is the code of no option of switcher \<open>k\<close>, restore
  runs to its end and changes nothing: no option becomes active, neither the stored one nor
  the first, and the label and the direction stay as they were.
\<close>

theorem restore_unknown_code:
  assumes "getItem (localStorage pg) = Inr (Some v)"
    and "v \<noteq> []"
    and "css_plain v"
    and "v \<notin> data_lang ` set (items (switchers pg ! k))"
  shows "restore qs k pg = Completed pg"
  using assms
  by (simp add: restore_def querySelector_data_lang_def first_with_lang_None [THEN iffD2])

theorem restore_unknown_code_witness:
  "''de-DE'' \<notin> data_lang ` set (items (switchers three_items ! 0))
   \<and> restore strict_engine 0 (three_items\<lparr>localStorage := Working (Some ''de-DE'')\<rparr>) =
       Completed (three_items\<lparr>localStorage := Working (Some ''de-DE'')\<rparr>)"
  using restore_unknown_code
          [where pg = "three_items\<lparr>localStorage := Working (Some ''de-DE'')\<rparr>"
             and v = "''de-DE''" and k = 0 and qs = strict_engine]
  by (auto simp: three_items_def css_special_def)

text \<open>The empty string is a stored value that matches no option of the page, and it is
  falsy on line 367: restore takes the else branch and the first option becomes active.\<close>

theorem restore_empty_value_counterexample:
  "getItem (localStorage (three_items\<lparr>localStorage := Working (Some [])\<rparr>)) = Inr (Some [])
   \<and> [] \<notin> data_lang ` set (items (switchers three_items ! 0))
   \<and> \<not> is_active (items (switchers three_items ! 0) ! 0)
   \<and> is_active (items (switchers (page_of (restore strict_engine 0
         (three_items\<lparr>localStorage := Working (Some [])\<rparr>))) ! 0) ! 0)"
  by (simp add: three_items_def restore_def activate_first_def update_switcher_def
        add_active_def)

text \<open>
  Claim C10. When the stored value is the code of an option of switcher \<open>k\<close>, restore
  leaves the direction attribute \<^verbatim>\<open>rtl\<close> if the code is \<^verbatim>\<open>ar-EG\<close>; for every other such
  code the attribute after restore is what it was before (restore never writes
  \<^verbatim>\<open>ltr\<close>), whether restore runs to its end or not.
\<close>

theorem restore_direction:
  assumes "getItem (localStorage pg) = Inr (Some c)"
    and "k < length (switchers pg)"
    and "c \<in> data_lang ` set (items (switchers pg ! k))"
  shows "dir (page_of (restore qs k pg)) = (if c = ''ar-EG'' then Some ''rtl'' else dir pg)"
proof (cases "css_plain c")
  case True
  show ?thesis
  proof (cases "c = []")
    case True
    then show ?thesis
      using assms(1) by (simp add: restore_def activate_first_def)
  next
    case False
    obtain s where s: "first_with_lang c (items (switchers pg ! k)) = Some s"
      using first_with_lang_declared [OF assms(3)] by blast
    show ?thesis
      using restore_found [OF assms(1) False \<open>css_plain c\<close> s assms(2)] by simp
  qed
next
  case False
  have ne: "c \<noteq> ''ar-EG''" using False by (auto simp: css_special_def)
  show ?thesis
    using restore_special [OF assms(1) False, of qs k] ne
    by (simp split: sum.splits option.splits)
qed

theorem restore_direction_witness:
  "dir (page_of (restore strict_engine 0 (three_items\<lparr>localStorage := Working (Some ''ar-EG'')\<rparr>)))
     = Some ''rtl''
   \<and> dir (page_of (restore strict_engine 0 (three_items\<lparr>dir := Some ''rtl'',
         localStorage := Working (Some ''fr-FR'')\<rparr>))) = Some ''rtl''"
  using restore_direction
          [where pg = "three_items\<lparr>localStorage := Working (Some ''ar-EG'')\<rparr>"
             and c = "''ar-EG''" and k = 0 and qs = strict_engine]
    restore_direction
          [where pg = "three_items\<lparr>dir := Some ''rtl'',
                                  localStorage := Working (Some ''fr-FR'')\<rparr>"
             and c = "''fr-FR''" and k = 0 and qs = strict_engine]
  by (simp add: three_items_def)

end
